theory Spec2Isabelle
  imports Main "HOL-Library.Sublist" "HOL-Library.AList"
begin

unbundle bit_operations_syntax

section \<open>fossil.py: data and errors\<close>

text \<open>
  Python \<^verbatim>\<open>bytes\<close>, \<^verbatim>\<open>memoryview\<close> and (ASCII) \<^verbatim>\<open>str\<close> values are
  modelled as \<^typ>\<open>string\<close>: a list of 8-bit characters, whose numeric value is
  \<^term>\<open>of_char c :: nat\<close>. Python's unbounded integers are \<^typ>\<open>int\<close>; buffer positions,
  which the code only ever counts upwards from 0, are \<^typ>\<open>nat\<close>.

  Every exception the modelled code can raise is a value of \<open>error\<close>; a function that can
  raise returns \<open>error + 'a\<close> with \<open>Inl\<close> for the exception.
\<close>

datatype message =
    InvalidDeltaEncoding
  | SizeMismatch int nat
  | DataMismatch
  | UnrecognizedCard string
  | CantFindArtifact int

datatype error =
    UnboundLocalError
  | IndexError
  | KeyError
  | AttributeError
  | StructError
  | UnicodeDecodeError
  | LibraryError
  | ValueError message

definition newline :: char where
  "newline = CHR 0x0A"

definition backslash :: char where
  "backslash = CHR 0x5C"

text \<open>Python slicing \<^verbatim>\<open>b[i:j]\<close> for non-negative \<open>i\<close>, \<open>j\<close>: out-of-range bounds are clipped.\<close>

definition slice :: "'a list \<Rightarrow> nat \<Rightarrow> nat \<Rightarrow> 'a list" where
  "slice b i j = take (j - i) (drop i b)"

text \<open>\<^verbatim>\<open>bytes.startswith\<close>.\<close>

definition startswith :: "string \<Rightarrow> string \<Rightarrow> bool" where
  "startswith b p = (take (length p) b = p)"

section \<open>Base-64 variable-length integers\<close>




text \<open>The table \<^verbatim>\<open>base64_getint.zvalue\<close>, one list for each line of 16 entries.\<close>

definition zvalue :: "int list" where
  "zvalue =
    [-1, -1, -1, -1, -1, -1, -1, -1,   -1, -1, -1, -1, -1, -1, -1, -1] @
    [-1, -1, -1, -1, -1, -1, -1, -1,   -1, -1, -1, -1, -1, -1, -1, -1] @
    [-1, -1, -1, -1, -1, -1, -1, -1,   -1, -1, -1, -1, -1, -1, -1, -1] @
    [ 0,  1,  2,  3,  4,  5,  6,  7,    8,  9, -1, -1, -1, -1, -1, -1] @
    [-1, 10, 11, 12, 13, 14, 15, 16,   17, 18, 19, 20, 21, 22, 23, 24] @
    [25, 26, 27, 28, 29, 30, 31, 32,   33, 34, 35, -1, -1, -1, -1, 36] @
    [-1, 37, 38, 39, 40, 41, 42, 43,   44, 45, 46, 47, 48, 49, 50, 51] @
    [52, 53, 54, 55, 56, 57, 58, 59,   60, 61, 62, -1, -1, -1, 63, -1]"

text \<open>\<^verbatim>\<open>base64_getint.zvalue[0x7f&ch]\<close>: the index is always below 128.\<close>

definition zval :: "char \<Rightarrow> int" where
  "zval ch = zvalue ! ((0x7f :: nat) AND of_char ch)"

text \<open>
  The \<^verbatim>\<open>for z, ch in enumerate(buf[pos:])\<close> loop. The second argument is the index \<open>z\<close> of
  the element about to be visited. On \<^verbatim>\<open>break\<close> the loop returns that index; when the
  elements are exhausted the \<^verbatim>\<open>else\<close> clause adds 1 to the last index visited, which is
  the same number as the index of the element that would come next.
\<close>

fun getint_loop :: "int \<Rightarrow> nat \<Rightarrow> string \<Rightarrow> int \<times> nat" where
  "getint_loop v z [] = (v, z)"
| "getint_loop v z (ch # rest) =
     (let c = zval ch in
      if c < 0 then (v, z) else getint_loop (push_bit 6 v + c) (Suc z) rest)"

text \<open>
  When \<^verbatim>\<open>buf[pos:]\<close> is empty the loop body never binds \<open>z\<close>, and the \<^verbatim>\<open>else\<close> clause
  \<^verbatim>\<open>z += 1\<close> reads the unbound local.
\<close>

definition base64_getint :: "string \<Rightarrow> nat \<Rightarrow> error + int \<times> nat" where
  "base64_getint buf pos =
     (if drop pos buf = [] then Inl UnboundLocalError
      else (case getint_loop 0 0 (drop pos buf) of (v, z) \<Rightarrow> Inr (v, pos + z)))"

section \<open>Checksum\<close>

text \<open>\<^verbatim>\<open>struct.unpack('>I', b)[0]\<close>: exactly four bytes, big-endian; otherwise \<^verbatim>\<open>struct.error\<close>.\<close>

definition unpack_I :: "string \<Rightarrow> error + nat" where
  "unpack_I b =
     (case b of
        [b0, b1, b2, b3] \<Rightarrow>
          Inr (of_char b0 * 16777216 + of_char b1 * 65536 + of_char b2 * 256 + of_char b3)
      | _ \<Rightarrow> Inl StructError)"

definition uint32 :: nat where
  "uint32 = 4294967296"

text \<open>
  \<^verbatim>\<open>for i in range(ints): checksum = (checksum + unpack('>I', blob[i*4:i*4+4])[0]) % uint32\<close>,
  written as a recursion over the list of indices.
\<close>

fun checksum_loop :: "string \<Rightarrow> nat list \<Rightarrow> nat \<Rightarrow> error + nat" where
  "checksum_loop blob [] checksum = Inr checksum"
| "checksum_loop blob (i # is) checksum =
     (case unpack_I (slice blob (i * 4) (i * 4 + 4)) of
        Inl e \<Rightarrow> Inl e
      | Inr w \<Rightarrow> checksum_loop blob is ((checksum + w) mod uint32))"

definition delta_checksum :: "string \<Rightarrow> error + nat" where
  "delta_checksum blob =
     (let ints = length blob div 4; m = length blob mod 4 in
      case checksum_loop blob [0..<ints] 0 of
        Inl e \<Rightarrow> Inl e
      | Inr checksum \<Rightarrow>
          (let rem = drop (ints * 4) blob @ replicate (4 - m) (CHR 0x00) in
           case unpack_I rem of
             Inl e \<Rightarrow> Inl e
           | Inr w \<Rightarrow> Inr ((checksum + w) mod uint32)))"




section \<open>Delta decoding\<close>

text \<open>
  The \<^verbatim>\<open>while pos < len(delta)\<close> loop of \<^verbatim>\<open>delta_apply\<close>. It returns the output buffer
  and the declared checksum when it leaves through \<^verbatim>\<open>break\<close> (op \<open>;\<close>); leaving through
  the loop condition runs the \<^verbatim>\<open>else\<close> clause, which raises. \<^verbatim>\<open>mdelta[pos]\<close> raises
  \<^verbatim>\<open>IndexError\<close> past the end, and slices are clipped to the buffer.
\<close>

function delta_loop :: "string \<Rightarrow> string \<Rightarrow> nat \<Rightarrow> string \<Rightarrow> error + string \<times> int" where
  "delta_loop blob delta pos newblob =
     (if pos < length delta then
        (case base64_getint delta pos of
           Inl e \<Rightarrow> Inl e
         | Inr (num, pos1) \<Rightarrow>
             if length delta \<le> pos1 then Inl IndexError
             else if (of_char (delta ! pos1) :: nat) = 64 then
               (case base64_getint delta (pos1 + 1) of
                  Inl e \<Rightarrow> Inl e
                | Inr (offset, pos2) \<Rightarrow>
                    delta_loop blob delta (pos2 + 1)
                      (newblob @ slice blob (nat offset) (nat (offset + num))))
             else if (of_char (delta ! pos1) :: nat) = 58 then
               delta_loop blob delta (pos1 + 1 + nat num)
                 (newblob @ slice delta (pos1 + 1) (pos1 + 1 + nat num))
             else if (of_char (delta ! pos1) :: nat) = 59 then Inr (newblob, num)
             else Inl (ValueError InvalidDeltaEncoding))
      else Inl (ValueError InvalidDeltaEncoding))"
  by pat_completeness auto
termination
proof -
  have mono: "z \<le> snd (getint_loop v z xs)" for v z xs
    by (induction v z xs rule: getint_loop.induct) (auto simp: Let_def intro: Suc_leD)
  have adv: "pos \<le> p" if "base64_getint buf pos = Inr (n, p)" for buf pos n p
  proof -
    from that obtain v z where "getint_loop 0 0 (drop pos buf) = (v, z)" and "p = pos + z"
      by (auto simp: base64_getint_def split: if_splits prod.splits)
    then show ?thesis by simp
  qed
  show ?thesis
    by (relation "measure (\<lambda>(blob, delta, pos, newblob). length delta - pos)")
       (auto dest!: adv)
qed

definition delta_apply :: "string \<Rightarrow> string \<Rightarrow> bool \<Rightarrow> error + string" where
  "delta_apply blob delta check =
     (case base64_getint delta 0 of
        Inl e \<Rightarrow> Inl e
      | Inr (targetsize, pos) \<Rightarrow>
          (case delta_loop blob delta (pos + 1) [] of
             Inl e \<Rightarrow> Inl e
           | Inr (buf, checksum) \<Rightarrow>
               if targetsize \<noteq> int (length buf)
               then Inl (ValueError (SizeMismatch targetsize (length buf)))
               else if check then
                 (case delta_checksum buf of
                    Inl e \<Rightarrow> Inl e
                  | Inr c \<Rightarrow>
                      if checksum \<noteq> int c then Inl (ValueError DataMismatch) else Inr buf)
               else Inr buf))"

section \<open>Clear-sign stripping\<close>

definition clearsign_header :: string where
  "clearsign_header = ''-----BEGIN PGP SIGNED MESSAGE-----''"

definition pgpsign_header :: string where
  "pgpsign_header = ''-----BEGIN PGP SIGNATURE-----''"

text \<open>\<^verbatim>\<open>bytes.rstrip()\<close> removes trailing ASCII whitespace: space, tab, LF, CR, VT, FF.\<close>

definition bytes_isspace :: "char \<Rightarrow> bool" where
  "bytes_isspace c = (c \<in> set [CHR 0x20, CHR 0x09, CHR 0x0A, CHR 0x0D, CHR 0x0B, CHR 0x0C])"

definition rstrip :: "string \<Rightarrow> string" where
  "rstrip b = rev (dropWhile bytes_isspace (rev b))"

text \<open>
  \<^verbatim>\<open>bytes.splitlines(True)\<close>: lines end at LF, CR LF or a lone CR; the terminators are
  kept; a last line without terminator is a line too; there is no empty line at the end.
\<close>

fun splitlines :: "string \<Rightarrow> string list" where
  "splitlines [] = []"
| "splitlines (c # cs) =
     (if c = newline then [c] # splitlines cs
      else if c = CHR 0x0D then
        (case cs of
           [] \<Rightarrow> [[c]]
         | d # ds \<Rightarrow> if d = newline then [c, d] # splitlines ds else [c] # splitlines cs)
      else
        (case splitlines cs of
           [] \<Rightarrow> [[c]]
         | l # ls \<Rightarrow> (c # l) # ls))"

text \<open>
  The \<^verbatim>\<open>for k, ln in enumerate(blob.splitlines(True))\<close> loop, with its two variables
  \<open>content\<close> and \<open>lines\<close>; \<^verbatim>\<open>break\<close> returns the lines collected so far.
\<close>

fun clearsign_loop :: "bool \<Rightarrow> string list \<Rightarrow> string list \<Rightarrow> string list" where
  "clearsign_loop content lines [] = lines"
| "clearsign_loop content lines (ln # rest) =
     (if rstrip ln = [] then clearsign_loop True lines rest
      else if content then
        (if rstrip ln = pgpsign_header then lines
         else if startswith ln ''- '' then clearsign_loop content (lines @ [drop 2 ln]) rest
         else clearsign_loop content (lines @ [ln]) rest)
      else clearsign_loop content lines rest)"

definition remove_clearsign :: "string \<Rightarrow> string" where
  "remove_clearsign blob =
     (if \<not> startswith blob clearsign_header then blob
      else concat (clearsign_loop False [] (splitlines blob)))"

section \<open>Card text escaping\<close>

text \<open>
  \<^verbatim>\<open>str.replace(old, new)\<close>: every non-overlapping occurrence of \<open>old\<close>, found from the
  left, is replaced. (For an empty \<open>old\<close> Python puts \<open>new\<close> around every character.)
\<close>

function replace :: "string \<Rightarrow> string \<Rightarrow> string \<Rightarrow> string" where
  "replace old new s =
     (if old = [] then new @ concat (map (\<lambda>c. c # new) s)
      else if s = [] then []
      else if startswith s old then new @ replace old new (drop (length old) s)
      else hd s # replace old new (tl s))"
  by pat_completeness auto
termination
  by (relation "measure (\<lambda>(old, new, s). length s)") auto

definition text_escape :: "string \<Rightarrow> string" where
  "text_escape s =
     replace [newline] [backslash, CHR ''n'']
       (replace '' '' [backslash, CHR ''s'']
          (replace [backslash] [backslash, backslash] s))"

definition text_unescape :: "string \<Rightarrow> string" where
  "text_unescape s =
     replace [backslash, backslash] [backslash]
       (replace [backslash, CHR ''n''] [newline]
          (replace [backslash, CHR ''s''] '' '' s))"

text \<open>
  The specification's other description of unescaping, written from its words: a single
  left-to-right pass that treats the backslash as the escape introducer for the three
  sequences \<open>\\\<close>, \<open>\s\<close> and \<open>\n\<close>. A backslash that introduces none of them is copied.
\<close>

fun unescape_single_pass :: "string \<Rightarrow> string" where
  "unescape_single_pass [] = []"
| "unescape_single_pass [c] = [c]"
| "unescape_single_pass (c # d # rest) =
     (if c = backslash \<and> d = backslash then backslash # unescape_single_pass rest
      else if c = backslash \<and> d = CHR ''s'' then CHR '' '' # unescape_single_pass rest
      else if c = backslash \<and> d = CHR ''n'' then newline # unescape_single_pass rest
      else c # unescape_single_pass (d # rest))"

section \<open>Library functions\<close>

text \<open>
  The code calls four functions of Python's standard library whose bodies are not part of
  the repository. They are parameters of the model: \<^verbatim>\<open>bytes.decode('utf-8')\<close>,
  \<^verbatim>\<open>calendar.timegm(time.strptime(s, '%Y-%m-%dT%H:%M:%S'))\<close>, \<^verbatim>\<open>int(s)\<close> and
  \<^verbatim>\<open>zlib.decompress\<close>. Each may raise.
\<close>

record library =
  utf8_decode :: "string \<Rightarrow> error + string"
  timegm_strptime :: "string \<Rightarrow> error + int"
  int_of_str :: "string \<Rightarrow> error + int"
  zlib_decompress :: "string \<Rightarrow> error + string"

text \<open>
  UTF-8 decoding restricted to ASCII, where it is the identity; it serves to run the model
  on ASCII inputs.
\<close>

definition ascii_decode :: "string \<Rightarrow> error + string" where
  "ascii_decode b =
     (if list_all (\<lambda>c. (of_char c :: nat) < 128) b then Inr b else Inl UnicodeDecodeError)"

definition parse_dt :: "library \<Rightarrow> string \<Rightarrow> error + int" where
  "parse_dt L s = timegm_strptime L (take 19 s)"

definition decompress :: "library \<Rightarrow> string \<Rightarrow> error + string" where
  "decompress L blob =
     (case unpack_I (take 4 blob) of
        Inl e \<Rightarrow> Inl e
      | Inr size' \<Rightarrow> zlib_decompress L (drop 4 blob))"

section \<open>Structural artifacts\<close>

datatype cardval =
    Tup "string list"
  | Str string
  | Num int
  | ETup int "string list"
  | Multi "cardval list"

type_synonym cards = "(string \<times> cardval) list"

definition CARDMULTI :: "string set" where
  "CARDMULTI = {''F'', ''J'', ''M'', ''Q'', ''T''}"

text \<open>\<^verbatim>\<open>str.rstrip()\<close> on ASCII text: the characters for which \<^verbatim>\<open>str.isspace\<close> holds.\<close>

definition str_isspace :: "char \<Rightarrow> bool" where
  "str_isspace c =
     ((of_char c :: nat) \<in> set [0x09, 0x0A, 0x0B, 0x0C, 0x0D, 0x1C, 0x1D, 0x1E, 0x1F, 0x20])"

definition str_rstrip :: "string \<Rightarrow> string" where
  "str_rstrip s = rev (dropWhile str_isspace (rev s))"

text \<open>\<^verbatim>\<open>s.split(' ')\<close>: split at every single space; the result is never empty.\<close>

fun split_space :: "string \<Rightarrow> string list" where
  "split_space [] = [[]]"
| "split_space (c # cs) =
     (if c = CHR '' '' then [] # split_space cs
      else (case split_space cs of
              [] \<Rightarrow> [[c]]
            | t # ts \<Rightarrow> (c # t) # ts))"

text \<open>\<^verbatim>\<open>io.BytesIO\<close>: the stream is the list of bytes not read yet.\<close>

fun readline :: "string \<Rightarrow> string \<times> string" where
  "readline [] = ([], [])"
| "readline (c # cs) =
     (if c = newline then ([c], cs)
      else (case readline cs of (l, r) \<Rightarrow> (c # l, r)))"

definition read :: "string \<Rightarrow> int \<Rightarrow> string \<times> string" where
  "read f n = (if n < 0 then (f, []) else (take (nat n) f, drop (nat n) f))"

text \<open>
  The \<^verbatim>\<open>if cmd in 'AFJT': ... else: raise\<close> chain of \<^verbatim>\<open>StructuralArtifact.parse\<close>.
  \<^verbatim>\<open>cmd in 'AFJT'\<close> with two \<^verbatim>\<open>str\<close> operands is Python's substring test
  (\<^const>\<open>sublist\<close>), \<^verbatim>\<open>cmd == 'D'\<close> is equality. The result is the card's value and
  the stream, from which card \<open>W\<close> reads its text.
\<close>

definition card_value ::
  "library \<Rightarrow> string \<Rightarrow> string \<Rightarrow> string list \<Rightarrow> string \<Rightarrow> error + cardval \<times> string" where
  "card_value L line cmd toks f =
     (if sublist cmd ''AFJT'' then Inr (Tup (map text_unescape toks), f)
      else if sublist cmd ''BGIKMNRZ'' then
        (case toks of [] \<Rightarrow> Inl IndexError | t # ts \<Rightarrow> Inr (Str t, f))
      else if sublist cmd ''CHLU'' then
        (case toks of [] \<Rightarrow> Inl IndexError | t # ts \<Rightarrow> Inr (Str (text_unescape t), f))
      else if cmd = ''D'' then
        (case toks of
           [] \<Rightarrow> Inl IndexError
         | t # ts \<Rightarrow> (case parse_dt L t of Inl e \<Rightarrow> Inl e | Inr n \<Rightarrow> Inr (Num n, f)))
      else if cmd = ''E'' then
        (case toks of
           [] \<Rightarrow> Inl IndexError
         | t # ts \<Rightarrow> (case parse_dt L t of Inl e \<Rightarrow> Inl e | Inr n \<Rightarrow> Inr (ETup n ts, f)))
      else if sublist cmd ''PQ'' then Inr (Tup toks, f)
      else if cmd = ''W'' then
        (case toks of
           [] \<Rightarrow> Inl IndexError
         | t # ts \<Rightarrow>
             (case int_of_str L t of
                Inl e \<Rightarrow> Inl e
              | Inr size' \<Rightarrow>
                  (case read f (size' + 1) of
                     (text, f') \<Rightarrow>
                       (case utf8_decode L text of
                          Inl e \<Rightarrow> Inl e
                        | Inr val \<Rightarrow> Inr (Str val, f')))))
      else
        (case utf8_decode L line of
           Inl e \<Rightarrow> Inl e
         | Inr text \<Rightarrow> Inl (ValueError (UnrecognizedCard (str_rstrip text)))))"

text \<open>
  \<^verbatim>\<open>if cmd in self.CARDMULTI: ... else: self.cards[cmd] = val\<close>. The dictionary is an
  association list in insertion order. \<^verbatim>\<open>.append\<close> on a value that is not a list would
  raise \<^verbatim>\<open>AttributeError\<close>.
\<close>

definition store_card :: "string \<Rightarrow> cardval \<Rightarrow> cards \<Rightarrow> error + cards" where
  "store_card cmd val cs =
     (if cmd \<in> CARDMULTI then
        (case map_of cs cmd of
           None \<Rightarrow> Inr (AList.update cmd (Multi [val]) cs)
         | Some (Multi vs) \<Rightarrow> Inr (AList.update cmd (Multi (vs @ [val])) cs)
         | Some _ \<Rightarrow> Inl AttributeError)
      else Inr (AList.update cmd val cs))"

text \<open>The \<^verbatim>\<open>while line:\<close> loop; its first argument after the library is the stream.\<close>

function parse_loop :: "library \<Rightarrow> string \<Rightarrow> cards \<Rightarrow> error + cards" where
  "parse_loop L f cs =
     (case readline f of
        (line, f1) \<Rightarrow>
          if line = [] then Inr cs
          else
            (case utf8_decode L line of
               Inl e \<Rightarrow> Inl e
             | Inr text \<Rightarrow>
                 (case split_space (str_rstrip text) of
                    [] \<Rightarrow> Inl (ValueError (UnrecognizedCard []))
                  | cmd # toks \<Rightarrow>
                      (case card_value L line cmd toks f1 of
                         Inl e \<Rightarrow> Inl e
                       | Inr (val, f2) \<Rightarrow>
                           (case store_card cmd val cs of
                              Inl e \<Rightarrow> Inl e
                            | Inr cs' \<Rightarrow> parse_loop L f2 cs')))))"
  by pat_completeness auto
termination
proof -
  have rl: "length (fst (readline f)) + length (snd (readline f)) = length f" for f
    by (induction f) (auto split: prod.splits)
  have cv: "length f2 \<le> length f1"
    if "card_value L line cmd toks f1 = Inr (val, f2)" for L line cmd toks f1 val f2
    using that
    by (auto simp: card_value_def read_def split: if_splits list.splits sum.splits prod.splits)
  have step: "length f2 < length f"
    if "readline f = (line, f1)" "line \<noteq> []" "card_value L line cmd toks f1 = Inr (val, f2)"
    for L f line f1 cmd toks val f2
    using rl[of f] cv[OF that(3)] that(1,2) by (cases line) auto
  show ?thesis
    by (relation "measure (\<lambda>(L, f, cs). length f)") (auto dest: step[OF sym])
qed

definition parse :: "library \<Rightarrow> string \<Rightarrow> error + cards" where
  "parse L blob = parse_loop L (remove_clearsign blob) []"

section \<open>LRU cache\<close>

text \<open>
  \<^verbatim>\<open>LRUCache\<close>: \<open>data\<close> is the \<^verbatim>\<open>OrderedDict\<close>, oldest entry first. \<^verbatim>\<open>pop\<close> of a
  missing key and \<^verbatim>\<open>popitem\<close> on an empty dictionary raise \<^verbatim>\<open>KeyError\<close>.
\<close>

record lrucache =
  capacity :: int
  data :: "(int \<times> string) list"

definition cache_contains :: "lrucache \<Rightarrow> int \<Rightarrow> bool" where
  "cache_contains c key = (map_of (data c) key \<noteq> None)"

definition cache_getitem :: "lrucache \<Rightarrow> int \<Rightarrow> error + string \<times> lrucache" where
  "cache_getitem c key =
     (case map_of (data c) key of
        None \<Rightarrow> Inl KeyError
      | Some v \<Rightarrow> Inr (v, c\<lparr>data := AList.delete key (data c) @ [(key, v)]\<rparr>))"

definition cache_setitem :: "lrucache \<Rightarrow> int \<Rightarrow> string \<Rightarrow> error + lrucache" where
  "cache_setitem c key v =
     (if capacity c \<noteq> 0 then
        (case map_of (data c) key of
           Some old \<Rightarrow> Inr (c\<lparr>data := AList.delete key (data c) @ [(key, v)]\<rparr>)
         | None \<Rightarrow>
             if capacity c \<le> int (length (data c)) then
               (case data c of
                  [] \<Rightarrow> Inl KeyError
                | first # rest \<Rightarrow> Inr (c\<lparr>data := rest @ [(key, v)]\<rparr>))
             else Inr (c\<lparr>data := data c @ [(key, v)]\<rparr>))
      else Inr c)"

section \<open>Repository lookups\<close>

datatype artifact =
    Artifact string int string
  | File string int string
  | StructuralArtifact string int string cards

fun artifact_blob :: "artifact \<Rightarrow> string" where
  "artifact_blob (Artifact blob rid uuid) = blob"
| "artifact_blob (File blob rid uuid) = blob"
| "artifact_blob (StructuralArtifact blob rid uuid cs) = blob"

text \<open>A lookup key is a Python \<^verbatim>\<open>int\<close> (a row id) or anything else (a uuid string).\<close>

datatype key = IntKey int | StrKey string

type_synonym row = "int \<times> string \<times> string"

text \<open>
  The storage engine is outside the repository: \<open>chain_query R kwd key\<close> is the list of rows
  \<open>(rid, uuid, content)\<close> that the recursive query on column \<open>kwd\<close> yields for the key, in
  the order the cursor delivers them.
\<close>

record repo =
  chain_query :: "string \<Rightarrow> key \<Rightarrow> row list"
  check :: bool
  cache :: lrucache

text \<open>
  The \<^verbatim>\<open>for rid, uuid, content in self.execute(...)\<close> loop of \<^verbatim>\<open>Repo.artifact\<close>. Its
  state is the working buffer \<open>blob\<close> (\<open>None\<close> at first), the loop variables \<open>rid\<close> and
  \<open>uuid\<close> (unbound before the first row) and the cache. \<^verbatim>\<open>if blob:\<close> is false for
  \<open>None\<close> and for the empty buffer. An exception leaves the cache as it was at that point.
\<close>

fun artifact_loop ::
  "library \<Rightarrow> bool \<Rightarrow> row list \<Rightarrow> string option \<Rightarrow> (int \<times> string) option \<Rightarrow> lrucache \<Rightarrow>
     (error + string option \<times> (int \<times> string) option) \<times> lrucache" where
  "artifact_loop L chk [] blob bound c = (Inr (blob, bound), c)"
| "artifact_loop L chk ((rid, uuid, content) # rows) blob bound c =
     (if cache_contains c rid then
        (case cache_getitem c rid of
           Inl e \<Rightarrow> (Inl e, c)
         | Inr (v, c') \<Rightarrow> artifact_loop L chk rows (Some v) (Some (rid, uuid)) c')
      else
        (case (case blob of
                 None \<Rightarrow> decompress L content
               | Some b \<Rightarrow>
                   if b \<noteq> [] then
                     (case decompress L content of
                        Inl e \<Rightarrow> Inl e
                      | Inr delta \<Rightarrow> delta_apply b delta chk)
                   else decompress L content) of
           Inl e \<Rightarrow> (Inl e, c)
         | Inr b' \<Rightarrow>
             (case cache_setitem c rid b' of
                Inl e \<Rightarrow> (Inl e, c)
              | Inr c' \<Rightarrow> artifact_loop L chk rows (Some b') (Some (rid, uuid)) c')))"

text \<open>
  \<^verbatim>\<open>Repo.artifact(key, type_)\<close>, returning the result or the exception, and the repository
  with its cache as the call leaves it. After the loop, \<^verbatim>\<open>if not blob\<close> evaluates the
  message \<^verbatim>\<open>"can't find artifact: %s" % rid\<close> before it raises, and \<open>rid\<close> is bound only
  if the loop body ran: \<open>cant_find\<close> is the exception that statement ends in.
\<close>

definition cant_find :: "(int \<times> string) option \<Rightarrow> error" where
  "cant_find bound =
     (case bound of
        None \<Rightarrow> UnboundLocalError
      | Some (rid, uuid) \<Rightarrow> ValueError (CantFindArtifact rid))"

text \<open>\<^verbatim>\<open>if isinstance(key, int): kwd = 'rid' ... else: kwd = 'uuid'\<close>\<close>

definition kwd_of :: "key \<Rightarrow> string" where
  "kwd_of k = (case k of IntKey i \<Rightarrow> ''rid'' | StrKey u \<Rightarrow> ''uuid'')"

definition artifact ::
  "library \<Rightarrow> repo \<Rightarrow> key \<Rightarrow> string option \<Rightarrow> (error + artifact) \<times> repo" where
  "artifact L R k type' =
     (let kwd = kwd_of k in
      case artifact_loop L (check R) (chain_query R kwd k) None None (cache R) of
        (Inl e, c) \<Rightarrow> (Inl e, R\<lparr>cache := c\<rparr>)
      | (Inr (blob, bound), c) \<Rightarrow>
          (case blob of
             None \<Rightarrow> (Inl (cant_find bound), R\<lparr>cache := c\<rparr>)
           | Some b \<Rightarrow>
               if b = [] then (Inl (cant_find bound), R\<lparr>cache := c\<rparr>)
               else
                 (case bound of
                    None \<Rightarrow> (Inl UnboundLocalError, R\<lparr>cache := c\<rparr>)
                  | Some (rid, uuid) \<Rightarrow>
                      if type' = Some ''structural'' then
                        (case parse L b of
                           Inl e \<Rightarrow> (Inl e, R\<lparr>cache := c\<rparr>)
                         | Inr cs \<Rightarrow> (Inr (StructuralArtifact b rid uuid cs), R\<lparr>cache := c\<rparr>))
                      else if type' = Some ''file'' then (Inr (File b rid uuid), R\<lparr>cache := c\<rparr>)
                      else (Inr (Artifact b rid uuid), R\<lparr>cache := c\<rparr>))))"

section \<open>Example inputs\<close>

text \<open>
  A library for running the model on concrete inputs: UTF-8 decoding restricted to ASCII,
  no date or integer parsing, and a decompressor that returns its input (it stands for
  \<^verbatim>\<open>zlib.decompress\<close> on a stream that inflates to those bytes).
\<close>

definition no_parse :: "string \<Rightarrow> error + int" where
  "no_parse s = Inl LibraryError"

definition example_library :: library where
  "example_library =
     \<lparr>utf8_decode = ascii_decode, timegm_strptime = no_parse, int_of_str = no_parse,
      zlib_decompress = Inr\<rparr>"

text \<open>A repository whose chain query yields the given rows for every key; empty cache.\<close>

definition example_repo :: "row list \<Rightarrow> repo" where
  "example_repo rows =
     \<lparr>chain_query = (\<lambda>kwd k. rows), check = False, cache = \<lparr>capacity = 64, data = []\<rparr>\<rparr>"

text \<open>A clear-signed blob whose signed text has a blank line between two lines.\<close>

definition signed_with_blank_line :: string where
  "signed_with_blank_line =
     ''-----BEGIN PGP SIGNED MESSAGE-----\<newline>\<newline>A\<newline>\<newline>B\<newline>''"

text \<open>A clear-signed blob whose signed text is the clear-sign header line itself.\<close>

definition signed_header_line :: string where
  "signed_header_line =
     ''-----BEGIN PGP SIGNED MESSAGE-----\<newline>\<newline>-----BEGIN PGP SIGNED MESSAGE-----\<newline>''"

section \<open>Base-64 integers: results\<close>


text \<open>
  Claim C6 (\<open>base64_getint\<close> returns \<open>(0, start)\<close> when no digit occurs at the start
  offset, also at or past the end of the buffer, and \<open>decode("") = (0, 0)\<close>). On the empty
  buffer the loop body never runs and the \<^verbatim>\<open>else\<close> clause reads the unbound \<open>z\<close>.
\<close>

theorem base64_getint_empty_raises:
  "base64_getint [] 0 = Inl UnboundLocalError"
  by code_simp

section \<open>Clear-sign stripping: results\<close>

text \<open>
  Claim C3 (for a blob with the clear-sign header, every line after the first blank line
  and before the signature line is emitted, blank lines included). A blank line always
  takes the first branch of the loop, which only sets \<open>content\<close>: the blank line between
  \<open>A\<close> and \<open>B\<close> is dropped.
\<close>

theorem remove_clearsign_drops_blank_line:
  "remove_clearsign signed_with_blank_line = ''A\<newline>B\<newline>''"
  by code_simp

section \<open>Card text: results\<close>

text \<open>
  Claim C4 (the three sequential replacements of \<open>text_unescape\<close> equal a single
  left-to-right pass). On backslash, backslash, \<open>s\<close> the first replacement takes the second
  backslash and the \<open>s\<close> for the escape of a space, where a single pass reads an escaped
  backslash followed by \<open>s\<close>. That string is what \<open>text_escape\<close> makes of backslash,
  \<open>s\<close>, so \<open>text_unescape\<close> does not undo \<open>text_escape\<close> there.
\<close>

theorem text_unescape_not_single_pass:
  "text_unescape [backslash, backslash, CHR ''s''] = [backslash, CHR '' ''] \<and>
   unescape_single_pass [backslash, backslash, CHR ''s''] = [backslash, CHR ''s''] \<and>
   text_escape [backslash, CHR ''s''] = [backslash, backslash, CHR ''s'']"
  by code_simp

text \<open>
  Claim C9 (a line whose first token is not one of the twenty-one card letters, the empty
  token and longer tokens included, is a parse error). \<^verbatim>\<open>cmd in 'AFJT'\<close> is a substring
  test: the token \<open>AF\<close> and the empty token pass it and are stored as cards.
\<close>

theorem parse_accepts_unrecognized_tokens:
  "parse example_library ''AF x\<newline>'' = Inr [(''AF'', Tup [''x''])] \<and>
   parse example_library '' x\<newline>'' = Inr [([], Tup [''x''])]"
  by code_simp

section \<open>Delta decoding: results\<close>




section \<open>Repository lookups: results\<close>

text \<open>
  Claim C2 (when the chain query returns no rows, \<open>Repo.artifact\<close> raises a not-found
  error for the key). With no rows the loop variable \<open>rid\<close> is never bound, and building
  the message of the intended \<^verbatim>\<open>ValueError\<close> raises \<^verbatim>\<open>UnboundLocalError\<close> instead.
\<close>

theorem artifact_no_rows_unbound:
  "chain_query R (kwd_of k) k = [] \<Longrightarrow> fst (artifact L R k type') = Inl UnboundLocalError"
  by (simp add: artifact_def cant_find_def)

theorem artifact_no_rows_unbound_witness:
  "chain_query (example_repo []) (kwd_of (IntKey 1)) (IntKey 1) = [] \<and>
   fst (artifact example_library (example_repo []) (IntKey 1) None) = Inl UnboundLocalError"
proof -
  have h: "chain_query (example_repo []) (kwd_of (IntKey 1)) (IntKey 1) = []"
    by (simp add: example_repo_def)
  from artifact_no_rows_unbound [OF h] h show ?thesis
    by simp
qed

lemma artifact_loop_bound:
  "artifact_loop L chk rows blob bound c = (Inr (blob', bound'), c') \<Longrightarrow> rows \<noteq> [] \<Longrightarrow>
     bound' = Some (fst (last rows), fst (snd (last rows)))"
proof (induction rows arbitrary: blob bound c)
  case Nil
  then show ?case by simp
next
  case (Cons r rows)
  obtain rid uuid content where r: "r = (rid, uuid, content)"
    by (cases r) auto
  show ?case
  proof (cases "rows = []")
    case True
    with Cons.prems r show ?thesis
      by (auto split: if_splits sum.splits prod.splits option.splits)
  next
    case False
    with Cons.prems r Cons.IH show ?thesis
      by (auto split: if_splits sum.splits prod.splits option.splits)
  qed
qed

text \<open>
  Claim C10 as stated (a row that reconstructs to zero bytes raises the same error as a
  missing row) does not hold: the empty blob raises the \<^verbatim>\<open>ValueError\<close>, the missing row
  raises \<^verbatim>\<open>UnboundLocalError\<close>.
\<close>

theorem artifact_empty_blob_differs_from_missing_row:
  "fst (artifact example_library (example_repo [(1, ''ab'', ''0000'')]) (IntKey 1) None)
     = Inl (ValueError (CantFindArtifact 1)) \<and>
   fst (artifact example_library (example_repo []) (IntKey 1) None) = Inl UnboundLocalError \<and>
   fst (artifact example_library (example_repo [(1, ''ab'', ''0000'')]) (IntKey 1) None)
     \<noteq> fst (artifact example_library (example_repo []) (IntKey 1) None)"
  by (simp add: artifact_def example_repo_def example_library_def kwd_of_def decompress_def
        unpack_I_def cache_contains_def cache_setitem_def cant_find_def)

text \<open>
  Claim C10, amended: \<open>Repo.artifact\<close> never returns an artifact whose blob is empty; when
  the query has rows and the chain reconstructs to zero bytes, the lookup raises the
  \<^verbatim>\<open>ValueError\<close> "can't find artifact" with the row id of the last row.
\<close>

theorem artifact_never_empty:
  "(fst (artifact L R k type') = Inr a \<longrightarrow> artifact_blob a \<noteq> []) \<and>
   (chain_query R (kwd_of k) k \<noteq> [] \<and>
    artifact_loop L (check R) (chain_query R (kwd_of k) k) None None (cache R)
      = (Inr (Some [], bound), c) \<longrightarrow>
    fst (artifact L R k type')
      = Inl (ValueError (CantFindArtifact (fst (last (chain_query R (kwd_of k) k))))))"
proof (intro conjI impI)
  assume "fst (artifact L R k type') = Inr a"
  then show "artifact_blob a \<noteq> []"
    by (auto simp: artifact_def Let_def split: prod.splits sum.splits option.splits if_splits)
next
  assume h: "chain_query R (kwd_of k) k \<noteq> [] \<and>
    artifact_loop L (check R) (chain_query R (kwd_of k) k) None None (cache R)
      = (Inr (Some [], bound), c)"
  with artifact_loop_bound [of L "check R" "chain_query R (kwd_of k) k" None None "cache R"
      "Some []" bound c]
  show "fst (artifact L R k type')
      = Inl (ValueError (CantFindArtifact (fst (last (chain_query R (kwd_of k) k)))))"
    by (auto simp: artifact_def Let_def cant_find_def)
qed

theorem artifact_never_empty_witness:
  "fst (artifact example_library (example_repo [(1, ''ab'', ''0000x'')]) (IntKey 1) None)
     = Inr (Artifact ''x'' 1 ''ab'') \<and>
   artifact_blob (Artifact ''x'' 1 ''ab'') \<noteq> [] \<and>
   chain_query (example_repo [(1, ''ab'', ''0000'')]) (kwd_of (IntKey 1)) (IntKey 1) \<noteq> [] \<and>
   fst (artifact example_library (example_repo [(1, ''ab'', ''0000'')]) (IntKey 1) None)
     = Inl (ValueError (CantFindArtifact 1))"
proof -
  have s: "fst (artifact example_library (example_repo [(1, ''ab'', ''0000x'')]) (IntKey 1) None)
     = Inr (Artifact ''x'' 1 ''ab'')"
    by (simp add: artifact_def example_repo_def example_library_def kwd_of_def decompress_def
          unpack_I_def cache_contains_def cache_setitem_def cant_find_def)
  from artifact_never_empty [THEN conjunct1, THEN mp, OF s]
  have a: "artifact_blob (Artifact ''x'' 1 ''ab'') \<noteq> []" .
  have q: "chain_query (example_repo [(1, ''ab'', ''0000'')]) (kwd_of (IntKey 1)) (IntKey 1) \<noteq> []"
    by (simp add: example_repo_def)
  have lp: "artifact_loop example_library (check (example_repo [(1, ''ab'', ''0000'')]))
      (chain_query (example_repo [(1, ''ab'', ''0000'')]) (kwd_of (IntKey 1)) (IntKey 1))
      None None (cache (example_repo [(1, ''ab'', ''0000'')]))
      = (Inr (Some [], Some (1, ''ab'')), \<lparr>capacity = 64, data = [(1, [])]\<rparr>)"
    by (simp add: example_repo_def example_library_def decompress_def
          unpack_I_def cache_contains_def cache_setitem_def)
  from artifact_never_empty [THEN conjunct2, THEN mp, OF conjI [OF q lp], of None]
  have e: "fst (artifact example_library (example_repo [(1, ''ab'', ''0000'')]) (IntKey 1) None)
     = Inl (ValueError (CantFindArtifact 1))"
    by (simp add: example_repo_def)
  from s a q e show ?thesis
    by blast
qed

section \<open>Checksum: results\<close>













section \<open>Clear-sign stripping: idempotence\<close>

lemma splitlines_lines: "concat (splitlines s) = s \<and> [] \<notin> set (splitlines s)"
proof (induction s rule: splitlines.induct)
  case 1
  show ?case by simp
next
  case (2 c cs)
  show ?case
  proof (cases "c = newline")
    case True
    with 2(1) show ?thesis
      by (subst (1 2) splitlines.simps(2)) (simp del: splitlines.simps)
  next
    case nl: False
    show ?thesis
    proof (cases "c = CHR 0x0D")
      case cr: True
      show ?thesis
      proof (cases cs)
        case Nil
        with nl cr show ?thesis
          by (subst (1 2) splitlines.simps(2)) (simp del: splitlines.simps)
      next
        case (Cons d ds)
        show ?thesis
        proof (cases "d = newline")
          case dn: True
          from 2(2) [OF nl cr Cons dn] nl cr Cons dn show ?thesis
            by (subst (1 2) splitlines.simps(2)) (simp del: splitlines.simps)
        next
          case dn: False
          from 2(3) [OF nl cr Cons dn] nl cr Cons dn show ?thesis
            by (subst (1 2) splitlines.simps(2)) (simp del: splitlines.simps)
        qed
      qed
    next
      case ncr: False
      from 2(4) [OF nl ncr] nl ncr show ?thesis
        by (subst (1 2) splitlines.simps(2))
           (cases "splitlines cs"; simp del: splitlines.simps)
    qed
  qed
qed

lemma concat_splitlines: "concat (splitlines s) = s"
  using splitlines_lines [of s] by blast

lemma splitlines_no_empty_line: "[] \<notin> set (splitlines s)"
  using splitlines_lines [of s] by blast

lemma clearsign_loop_length:
  "length (concat (clearsign_loop content lines rest))
     \<le> length (concat lines) + length (concat rest)"
proof (induction rest arbitrary: content lines)
  case Nil
  then show ?case by simp
next
  case (Cons ln rest)
  have a: "length (concat (clearsign_loop c (lines @ [drop 2 ln]) rest))
             \<le> length (concat lines) + (length ln + length (concat rest))" for c
    using Cons.IH [of c "lines @ [drop 2 ln]"] by simp
  have b: "length (concat (clearsign_loop c (lines @ [ln]) rest))
             \<le> length (concat lines) + (length ln + length (concat rest))" for c
    using Cons.IH [of c "lines @ [ln]"] by simp
  have c: "length (concat (clearsign_loop c lines rest))
             \<le> length (concat lines) + (length ln + length (concat rest))" for c
    using Cons.IH [of c lines] by simp
  show ?case
    by (simp add: a b c)
qed

lemma clearsign_loop_first_line:
  "length (concat (clearsign_loop False [] (ln # rest))) \<le> length (concat rest)"
  using clearsign_loop_length [of True "[]" rest] clearsign_loop_length [of False "[]" rest]
  by simp

lemma remove_clearsign_shrinks:
  assumes "startswith r clearsign_header"
  shows "length (remove_clearsign r) < length r"
proof -
  from assms have "r \<noteq> []"
    by (auto simp: startswith_def clearsign_header_def)
  then have "splitlines r \<noteq> []"
    using concat_splitlines [of r] by auto
  then obtain ln rest where sp: "splitlines r = ln # rest"
    by (cases "splitlines r") auto
  with splitlines_no_empty_line [of r] have "ln \<noteq> []"
    by auto
  moreover have "length r = length ln + length (concat rest)"
    using concat_splitlines [of r] sp by (metis concat.simps(2) length_append)
  moreover have "length (remove_clearsign r) \<le> length (concat rest)"
    using assms sp clearsign_loop_first_line [of ln rest] by (simp add: remove_clearsign_def)
  ultimately show ?thesis
    by (cases ln) auto
qed

text \<open>
  Claim C7 as stated (\<open>remove_clearsign\<close> is idempotent on every blob) does not hold:
  when the signed text itself begins with the clear-sign header, the first call returns
  that text, and the second call takes it for an envelope and strips it again.
\<close>

theorem remove_clearsign_twice_differs:
  "startswith (remove_clearsign signed_header_line) clearsign_header \<and>
   remove_clearsign (remove_clearsign signed_header_line) \<noteq> remove_clearsign signed_header_line"
  by code_simp

text \<open>
  Claim C7, amended: a blob that does not start with the clear-sign header is returned
  unchanged, and \<open>remove_clearsign (remove_clearsign b) = remove_clearsign b\<close> holds
  exactly when \<open>remove_clearsign b\<close> does not start with the header again: each call
  strips one envelope.
\<close>

theorem remove_clearsign_idempotent_iff:
  "(\<not> startswith b clearsign_header \<longrightarrow> remove_clearsign b = b) \<and>
   (remove_clearsign (remove_clearsign b) = remove_clearsign b
      \<longleftrightarrow> \<not> startswith (remove_clearsign b) clearsign_header)"
proof (intro conjI impI iffI)
  assume "\<not> startswith b clearsign_header"
  then show "remove_clearsign b = b"
    by (simp add: remove_clearsign_def)
next
  assume "\<not> startswith (remove_clearsign b) clearsign_header"
  then show "remove_clearsign (remove_clearsign b) = remove_clearsign b"
    by (simp add: remove_clearsign_def)
next
  assume eq: "remove_clearsign (remove_clearsign b) = remove_clearsign b"
  show "\<not> startswith (remove_clearsign b) clearsign_header"
  proof
    assume "startswith (remove_clearsign b) clearsign_header"
    from remove_clearsign_shrinks [OF this] eq show False
      by simp
  qed
qed

theorem remove_clearsign_idempotent_iff_witness:
  "\<not> startswith ''C hi\<newline>'' clearsign_header \<and>
   remove_clearsign ''C hi\<newline>'' = ''C hi\<newline>'' \<and>
   remove_clearsign (remove_clearsign ''C hi\<newline>'') = remove_clearsign ''C hi\<newline>''"
proof -
  have h: "\<not> startswith ''C hi\<newline>'' clearsign_header"
    by code_simp
  from remove_clearsign_idempotent_iff [of "''C hi\<newline>''"] h
  have e: "remove_clearsign ''C hi\<newline>'' = ''C hi\<newline>''"
    by blast
  from remove_clearsign_idempotent_iff [of "''C hi\<newline>''"] h e
  have "remove_clearsign (remove_clearsign ''C hi\<newline>'') = remove_clearsign ''C hi\<newline>''"
    by simp
  with h e show ?thesis
    by blast
qed

end
